theory Spec2Isabelle
  imports Complex_Main "HOL-Library.Sublist"
begin

section \<open>Text: code points, character tables, string operations\<close>

text \<open>
  A Python \<open>str\<close> is a sequence of Unicode code points, so a character is an integer
  (its code point) and a string a list of them. The character tables of the interpreter are
  modelled on the alphabet the extractor is written for: ASCII and the Polish and German
  letters that occur in the patterns of \<open>city_extractor.py\<close>. White space and line
  breaks are the complete Unicode sets. A code point outside the alphabet is treated as
  an uncased symbol that is neither a digit nor a word character.
\<close>

type_synonym uchar = int

type_synonym ustr = "uchar list"

definition asc :: "string \<Rightarrow> ustr" where
  "asc s = map of_char s"

text \<open>Upper-case / lower-case pairs of the non-ASCII letters of the patterns:
  the nine Polish letters, the three umlauts, and capital sharp s with sharp s.\<close>

definition case_pairs :: "(uchar \<times> uchar) list" where
  "case_pairs =
     [(260, 261), (262, 263), (280, 281), (321, 322), (323, 324), (211, 243),
      (346, 347), (379, 380), (377, 378), (196, 228), (214, 246), (220, 252),
      (7838, 223)]"

definition is_digit :: "uchar \<Rightarrow> bool" where
  "is_digit c \<longleftrightarrow> 48 \<le> c \<and> c \<le> 57"

definition is_space :: "uchar \<Rightarrow> bool" where
  "is_space c \<longleftrightarrow>
     (9 \<le> c \<and> c \<le> 13) \<or> (28 \<le> c \<and> c \<le> 32) \<or> c = 133 \<or> c = 160 \<or> c = 5760 \<or>
     (8192 \<le> c \<and> c \<le> 8202) \<or> c = 8232 \<or> c = 8233 \<or> c = 8239 \<or> c = 8287 \<or> c = 12288"

definition is_linebreak :: "uchar \<Rightarrow> bool" where
  "is_linebreak c \<longleftrightarrow>
     (10 \<le> c \<and> c \<le> 13) \<or> (28 \<le> c \<and> c \<le> 30) \<or> c = 133 \<or> c = 8232 \<or> c = 8233"

definition is_upper_ascii :: "uchar \<Rightarrow> bool" where
  "is_upper_ascii c \<longleftrightarrow> 65 \<le> c \<and> c \<le> 90"

definition is_lower_ascii :: "uchar \<Rightarrow> bool" where
  "is_lower_ascii c \<longleftrightarrow> 97 \<le> c \<and> c \<le> 122"

definition is_alpha :: "uchar \<Rightarrow> bool" where
  "is_alpha c \<longleftrightarrow>
     is_upper_ascii c \<or> is_lower_ascii c \<or> c \<in> fst ` set case_pairs \<or> c \<in> snd ` set case_pairs"

text \<open>\<open>\w\<close> of \<open>re\<close>: alphanumeric or underscore.\<close>

definition is_word :: "uchar \<Rightarrow> bool" where
  "is_word c \<longleftrightarrow> is_alpha c \<or> is_digit c \<or> c = 95"

definition to_lower :: "uchar \<Rightarrow> uchar" where
  "to_lower c =
     (if is_upper_ascii c then c + 32
      else case map_of case_pairs c of Some l \<Rightarrow> l | None \<Rightarrow> c)"

text \<open>Title case of one character, as \<open>str.capitalize\<close> applies it to the first
  character (Python 3.8 and later): sharp s becomes \<open>Ss\<close>.\<close>

definition to_title :: "uchar \<Rightarrow> ustr" where
  "to_title c =
     (if is_lower_ascii c then [c - 32]
      else if c = 223 then [83, 115]
      else case map_of (map (\<lambda>(u, l). (l, u)) case_pairs) c of Some u \<Rightarrow> [u] | None \<Rightarrow> [c])"

definition to_upper :: "uchar \<Rightarrow> ustr" where
  "to_upper c =
     (if is_lower_ascii c then [c - 32]
      else if c = 223 then [83, 83]
      else case map_of (map (\<lambda>(u, l). (l, u)) case_pairs) c of Some u \<Rightarrow> [u] | None \<Rightarrow> [c])"

definition py_lower :: "ustr \<Rightarrow> ustr" where
  "py_lower s = map to_lower s"

definition py_upper :: "ustr \<Rightarrow> ustr" where
  "py_upper s = concat (map to_upper s)"

fun capitalize :: "ustr \<Rightarrow> ustr" where
  "capitalize [] = []"
| "capitalize (c # cs) = to_title c @ map to_lower cs"

definition py_strip :: "ustr \<Rightarrow> ustr" where
  "py_strip s = rev (dropWhile is_space (rev (dropWhile is_space s)))"

text \<open>\<open>str.splitlines\<close>: a line ends at a line break, \<open>\r\n\<close> counts as one break,
  and no empty last line is produced after a final break.\<close>

fun splitlines_aux :: "ustr \<Rightarrow> ustr \<Rightarrow> ustr list" where
  "splitlines_aux cur [] = (if cur = [] then [] else [rev cur])"
| "splitlines_aux cur [c] = (if is_linebreak c then [rev cur] else [rev (c # cur)])"
| "splitlines_aux cur (c # d # cs) =
     (if c = 13 \<and> d = 10 then rev cur # splitlines_aux [] cs
      else if is_linebreak c then rev cur # splitlines_aux [] (d # cs)
      else splitlines_aux (c # cur) (d # cs))"

definition splitlines :: "ustr \<Rightarrow> ustr list" where
  "splitlines s = splitlines_aux [] s"

fun join :: "ustr \<Rightarrow> ustr list \<Rightarrow> ustr" where
  "join sep [] = []"
| "join sep [x] = x"
| "join sep (x # y # ys) = x @ sep @ join sep (y # ys)"

text \<open>\<open>tok in s\<close> and \<open>s.split(tok, 1)[0]\<close> for a non-empty \<open>tok\<close>.\<close>

fun contains :: "ustr \<Rightarrow> ustr \<Rightarrow> bool" where
  "contains tok [] = (tok = [])"
| "contains tok (c # cs) = (prefix tok (c # cs) \<or> contains tok cs)"

fun cut_at :: "ustr \<Rightarrow> ustr \<Rightarrow> ustr" where
  "cut_at tok [] = []"
| "cut_at tok (c # cs) = (if prefix tok (c # cs) then [] else c # cut_at tok cs)"

text \<open>\<open>t.split(' ')\<close>: split at every single space, keeping empty pieces.\<close>

fun split_sp :: "ustr \<Rightarrow> ustr list" where
  "split_sp [] = [[]]"
| "split_sp (c # cs) =
     (if c = 32 then [] # split_sp cs
      else case split_sp cs of w # ws \<Rightarrow> (c # w) # ws | [] \<Rightarrow> [[c]])"

section \<open>The fragment of \<open>re\<close> used by the extractor\<close>

text \<open>
  Character sets, literals, \<open>\b\<close>, greedy bounded repetition of a set, an optional
  group, one capturing group, concatenation and alternation. A match state is the text
  consumed so far (reversed), the text still ahead, and the contents of group 1.
  \<open>rx_step\<close> lists the states a pattern can end in, in the order in which the
  backtracking matcher tries them; the matcher's answer is the head of the list.
\<close>

datatype cset = Digit | Space | Chars "(uchar \<times> uchar) list"

datatype rx =
    Eps
  | Lit uchar
  | Cls cset
  | WordB
  | Rep nat "nat option" cset
  | Opt rx
  | Grp rx
  | Cat rx rx
  | Alt rx rx

type_synonym mstate = "ustr \<times> ustr \<times> ustr option"

definition lit_eq :: "bool \<Rightarrow> uchar \<Rightarrow> uchar \<Rightarrow> bool" where
  "lit_eq ic a c = (if ic then to_lower a = to_lower c else a = c)"

text \<open>Under IGNORECASE a set holds a character when its lower case is the lower case
  of a member of the set.\<close>

fun cset_mem :: "bool \<Rightarrow> cset \<Rightarrow> uchar \<Rightarrow> bool" where
  "cset_mem ic Digit c = is_digit c"
| "cset_mem ic Space c = is_space c"
| "cset_mem ic (Chars rs) c =
     (if ic then list_ex (\<lambda>(lo, hi). list_ex (\<lambda>x. to_lower x = to_lower c) [lo..hi]) rs
      else list_ex (\<lambda>(lo, hi). lo \<le> c \<and> c \<le> hi) rs)"

definition word_boundary :: "ustr \<Rightarrow> ustr \<Rightarrow> bool" where
  "word_boundary pre suf \<longleftrightarrow>
     (case pre of [] \<Rightarrow> False | p # _ \<Rightarrow> is_word p) \<noteq> (case suf of [] \<Rightarrow> False | c # _ \<Rightarrow> is_word c)"

fun rx_step :: "bool \<Rightarrow> rx \<Rightarrow> mstate \<Rightarrow> mstate list" where
  "rx_step ic Eps st = [st]"
| "rx_step ic (Lit a) (pre, suf, g) =
     (case suf of [] \<Rightarrow> [] | c # cs \<Rightarrow> if lit_eq ic a c then [(c # pre, cs, g)] else [])"
| "rx_step ic (Cls C) (pre, suf, g) =
     (case suf of [] \<Rightarrow> [] | c # cs \<Rightarrow> if cset_mem ic C c then [(c # pre, cs, g)] else [])"
| "rx_step ic WordB (pre, suf, g) = (if word_boundary pre suf then [(pre, suf, g)] else [])"
| "rx_step ic (Rep lo hi C) (pre, suf, g) =
     (let n = length (takeWhile (cset_mem ic C) suf);
          m = (case hi of None \<Rightarrow> n | Some h \<Rightarrow> min n h)
      in if m < lo then []
         else map (\<lambda>k. (rev (take k suf) @ pre, drop k suf, g)) (rev [lo..<Suc m]))"
| "rx_step ic (Opt r) st = rx_step ic r st @ [st]"
| "rx_step ic (Grp r) (pre, suf, g) =
     map (\<lambda>(pre', suf', _). (pre', suf', Some (rev (take (length pre' - length pre) pre'))))
       (rx_step ic r (pre, suf, g))"
| "rx_step ic (Cat a b) st = concat (map (rx_step ic b) (rx_step ic a st))"
| "rx_step ic (Alt a b) st = rx_step ic a st @ rx_step ic b st"

definition rx_match :: "bool \<Rightarrow> rx \<Rightarrow> ustr \<Rightarrow> ustr \<Rightarrow> mstate option" where
  "rx_match ic r pre suf = (case rx_step ic r (pre, suf, None) of [] \<Rightarrow> None | st # _ \<Rightarrow> Some st)"

text \<open>\<open>pattern.search\<close>: the match at the leftmost position that has one, with
  the (reversed) text in front of it.\<close>

fun rx_search_from :: "bool \<Rightarrow> rx \<Rightarrow> ustr \<Rightarrow> ustr \<Rightarrow> (ustr \<times> mstate) option" where
  "rx_search_from ic r pre [] = map_option (Pair pre) (rx_match ic r pre [])"
| "rx_search_from ic r pre (c # cs) =
     (case rx_match ic r pre (c # cs) of
        Some st \<Rightarrow> Some (pre, st)
      | None \<Rightarrow> rx_search_from ic r (c # pre) cs)"

definition rx_search :: "bool \<Rightarrow> rx \<Rightarrow> ustr \<Rightarrow> (ustr \<times> mstate) option" where
  "rx_search ic r s = rx_search_from ic r [] s"

text \<open>\<open>m.group(1)\<close> of a search; every pattern with a group has it outside any
  option, so the group takes part in every match.\<close>

definition search_group :: "bool \<Rightarrow> rx \<Rightarrow> ustr \<Rightarrow> ustr option" where
  "search_group ic r s =
     (case rx_search ic r s of
        None \<Rightarrow> None
      | Some (_, _, _, g) \<Rightarrow> Some (case g of None \<Rightarrow> [] | Some t \<Rightarrow> t))"

text \<open>\<open>bool(pattern.search(s))\<close>.\<close>

definition rx_found :: "bool \<Rightarrow> rx \<Rightarrow> ustr \<Rightarrow> bool" where
  "rx_found ic r s \<longleftrightarrow> rx_search ic r s \<noteq> None"

text \<open>\<open>re.split(pattern, s)[0]\<close>: the text in front of the first match, all of
  \<open>s\<close> when there is none.\<close>

definition re_split_head :: "bool \<Rightarrow> rx \<Rightarrow> ustr \<Rightarrow> ustr" where
  "re_split_head ic r s = (case rx_search ic r s of None \<Rightarrow> s | Some (pre, _) \<Rightarrow> rev pre)"

text \<open>\<open>re.sub\<close>: every non-overlapping match, left to right, is replaced. An empty
  match is replaced too and the scan moves one character on.\<close>

function rx_sub :: "bool \<Rightarrow> rx \<Rightarrow> ustr \<Rightarrow> ustr \<Rightarrow> ustr \<Rightarrow> ustr" where
  "rx_sub ic r repl pre suf =
     (case rx_match ic r pre suf of
        Some (pre', suf', _) \<Rightarrow>
          if length suf' < length suf then repl @ rx_sub ic r repl pre' suf'
          else repl @ (case suf of [] \<Rightarrow> [] | c # cs \<Rightarrow> c # rx_sub ic r repl (c # pre) cs)
      | None \<Rightarrow> (case suf of [] \<Rightarrow> [] | c # cs \<Rightarrow> c # rx_sub ic r repl (c # pre) cs))"
  by pat_completeness auto
termination
  by (relation "measure (\<lambda>(ic, r, repl, pre, suf). length suf)") auto

definition re_sub :: "bool \<Rightarrow> rx \<Rightarrow> ustr \<Rightarrow> ustr \<Rightarrow> ustr" where
  "re_sub ic r repl s = rx_sub ic r repl [] s"

fun seq :: "rx list \<Rightarrow> rx" where
  "seq [] = Eps"
| "seq [r] = r"
| "seq (r # rs) = Cat r (seq rs)"

definition lit_str :: "ustr \<Rightarrow> rx" where
  "lit_str s = seq (map Lit s)"

fun alts :: "rx list \<Rightarrow> rx" where
  "alts [] = Eps"
| "alts [r] = r"
| "alts (r # rs) = Alt r (alts rs)"

section \<open>The patterns of \<open>CityExtractor.__init__\<close>\<close>

definition pl_upper :: "(uchar \<times> uchar) list" where
  "pl_upper = [(260, 260), (262, 262), (280, 280), (321, 321), (323, 323), (211, 211),
               (346, 346), (379, 379), (377, 377)]"

definition pl_lower :: "(uchar \<times> uchar) list" where
  "pl_lower = [(261, 261), (263, 263), (281, 281), (322, 322), (324, 324), (243, 243),
               (347, 347), (380, 380), (378, 378)]"

definition punct :: "(uchar \<times> uchar) list" where
  "punct = [(32, 32), (46, 46), (45, 45), (39, 39)]"

definition pl_name :: cset where
  "pl_name = Chars ([(65, 90), (97, 122)] @ pl_upper @ pl_lower @ punct)"

definition de_name :: cset where
  "de_name = Chars ([(65, 90), (97, 122), (196, 196), (214, 214), (220, 220),
                     (228, 228), (246, 246), (252, 252), (7838, 7838), (223, 223)] @ punct)"

text \<open>The optional suffix \<open>(?:\s+b\.\s+[...]+)?\<close> ("near <place>").\<close>

definition near_suffix :: "cset \<Rightarrow> rx" where
  "near_suffix C = Opt (seq [Rep 1 None Space, Lit 98, Lit 46, Rep 1 None Space, Rep 1 None C])"

definition pattern_pl_zip_city :: "bool \<times> rx" where
  "pattern_pl_zip_city =
     (True, seq [WordB, Lit 80, Lit 76, Rep 0 (Some 1) Space, Rep 2 (Some 2) Digit, Lit 45,
                 Rep 3 (Some 3) Digit, Rep 1 None Space,
                 Grp (Cat (Rep 1 None pl_name) (near_suffix pl_name))])"

definition pattern_de_zip_city :: "bool \<times> rx" where
  "pattern_de_zip_city =
     (True, seq [WordB, Lit 68, Rep 0 (Some 1) Space, Rep 0 (Some 1) (Chars [(45, 45)]),
                 Rep 4 (Some 5) Digit, Rep 1 None Space, Grp (Rep 1 None de_name)])"

definition pattern_pl_bare_zip_city :: "bool \<times> rx" where
  "pattern_pl_bare_zip_city =
     (False, seq [WordB, Rep 2 (Some 2) Digit, Lit 45, Rep 3 (Some 3) Digit, Rep 1 None Space,
                  Grp (Cat (Rep 1 None pl_name) (near_suffix pl_name))])"

definition pattern_de_bare_zip_city :: "bool \<times> rx" where
  "pattern_de_bare_zip_city =
     (False, seq [WordB, Rep 5 (Some 5) Digit, Rep 1 None Space, Grp (Rep 1 None de_name)])"

definition pattern_city_only :: "bool \<times> rx" where
  "pattern_city_only =
     (False, seq [WordB,
                  Grp (seq [Cls (Chars ([(65, 90)] @ pl_upper @ [(196, 196), (214, 214), (220, 220)])),
                            Rep 2 None (Chars ([(65, 90), (97, 122)] @ pl_upper @
                               [(196, 196), (214, 214), (220, 220), (228, 228), (246, 246),
                                (252, 252), (7838, 7838), (223, 223)] @ punct)),
                            near_suffix (Chars ([(65, 90), (97, 122)] @ punct))]),
                  WordB])"

definition street_tokens :: "ustr list" where
  "street_tokens =
     [asc ''str.'', asc ''stra'' @ [223] @ asc ''e'', asc ''strasse'', asc ''allee'', asc ''ul.'',
      asc ''ulica'', asc ''platz'', asc ''ring'', asc ''weg'', asc ''gasse'', asc ''am'',
      asc ''an der'']"

definition zip_patterns :: "(bool \<times> rx) list" where
  "zip_patterns =
     [pattern_pl_zip_city, pattern_de_zip_city, pattern_pl_bare_zip_city, pattern_de_bare_zip_city]"

section \<open>The Normalizer: \<open>_clean_city\<close>\<close>

text \<open>\<open>\b(?:PL|D|D-)\s?\d{2}-?\d{3,5}\s*\<close> (IGNORECASE) and
  \<open>\b\d{2}-?\d{3,5}\b\<close>.\<close>

definition zip_prefix_rx :: rx where
  "zip_prefix_rx =
     seq [WordB, alts [Cat (Lit 80) (Lit 76), Lit 68, Cat (Lit 68) (Lit 45)],
          Rep 0 (Some 1) Space, Rep 2 (Some 2) Digit, Rep 0 (Some 1) (Chars [(45, 45)]),
          Rep 3 (Some 5) Digit, Rep 0 None Space]"

definition bare_zip_rx :: rx where
  "bare_zip_rx =
     seq [WordB, Rep 2 (Some 2) Digit, Rep 0 (Some 1) (Chars [(45, 45)]), Rep 3 (Some 5) Digit, WordB]"

definition split_tokens :: "ustr list" where
  "split_tokens = [asc ''na zlec'', asc ''auftr'', asc ''auftrag'', asc ''attn'']"

definition separators_rx :: rx where
  "separators_rx = Cls (Chars [(59, 59), (44, 44), (124, 124)])"

definition cut_tokens :: "ustr \<Rightarrow> ustr" where
  "cut_tokens s = foldl (\<lambda>t tok. cut_at tok t) s split_tokens"

definition ends_with_dot :: "ustr \<Rightarrow> bool" where
  "ends_with_dot p \<longleftrightarrow> p \<noteq> [] \<and> last p = 46"

definition smart_title :: "ustr \<Rightarrow> ustr" where
  "smart_title t =
     join [32] (map (\<lambda>p. if \<not> ends_with_dot p then capitalize p else capitalize (butlast p) @ [46])
                    (split_sp t))"

definition clean_city :: "ustr \<Rightarrow> ustr" where
  "clean_city raw =
     (if raw = [] then []
      else let s = re_sub True zip_prefix_rx [] raw;
               s = re_sub False bare_zip_rx [] s;
               s = cut_tokens s;
               s = re_split_head False separators_rx s;
               s = py_strip (re_sub False (Rep 1 None Space) [32] s)
           in smart_title s)"

section \<open>The Pattern Cascade, single-city mode: \<open>_regex_city\<close>\<close>

definition looks_like_street :: "ustr \<Rightarrow> bool" where
  "looks_like_street line \<longleftrightarrow> list_ex (\<lambda>tok. contains tok (py_lower line)) street_tokens"

text \<open>The inner \<open>for pattern in (...)\<close> loop: group 1 of the first pattern that
  matches the line.\<close>

fun first_match :: "(bool \<times> rx) list \<Rightarrow> ustr \<Rightarrow> ustr option" where
  "first_match [] line = None"
| "first_match ((ic, r) # ps) line =
     (case search_group ic r line of Some g \<Rightarrow> Some g | None \<Rightarrow> first_match ps line)"

definition count_digits :: "ustr \<Rightarrow> nat" where
  "count_digits line = length (filter is_digit line)"

text \<open>The first loop. The test on the number of digits is the last statement of the
  loop body and both of its outcomes go on with the next line.\<close>

fun regex_city_zip_pass :: "ustr list \<Rightarrow> ustr option" where
  "regex_city_zip_pass [] = None"
| "regex_city_zip_pass (l # ls) =
     (let line = py_strip l in
      if line = [] then regex_city_zip_pass ls
      else case first_match zip_patterns line of
             Some g \<Rightarrow> Some (clean_city g)
           | None \<Rightarrow>
               if count_digits line > max 3 (length line div 3) then regex_city_zip_pass ls
               else regex_city_zip_pass ls)"

fun regex_city_fallback :: "ustr list \<Rightarrow> ustr option" where
  "regex_city_fallback [] = None"
| "regex_city_fallback (l # ls) =
     (let line = py_strip l in
      if line = [] then regex_city_fallback ls
      else if looks_like_street line then regex_city_fallback ls
      else case search_group (fst pattern_city_only) (snd pattern_city_only) line of
             Some g \<Rightarrow> Some (clean_city g)
           | None \<Rightarrow> regex_city_fallback ls)"

definition regex_city :: "ustr \<Rightarrow> ustr option" where
  "regex_city section =
     (if section = [] then None
      else case regex_city_zip_pass (splitlines section) of
             Some c \<Rightarrow> Some c
           | None \<Rightarrow> regex_city_fallback (splitlines section))"

section \<open>The Section Locator: \<open>_extract_section\<close>\<close>

definition CITY_SECTION_MAX_LINES :: nat where
  "CITY_SECTION_MAX_LINES = 30"

definition header_tokens :: "ustr list" where
  "header_tokens =
     [asc ''Miejsce za'' @ [322] @ asc ''adunku'', asc ''Miejsce zaladunku'',
      asc ''Miejsce roz'' @ [322] @ asc ''adunku'', asc ''Miejsce rozladunku'',
      asc ''Zlecenie'', asc ''Samoch'' @ [243] @ asc ''d'', asc ''Samochod'',
      asc ''Vereinbarter Frachtpreis'', asc ''Termin rozladunku'']"

text \<open>\<open>re.compile("|".join(re.escape(t) for t in tokens), re.IGNORECASE)\<close>.\<close>

definition any_of :: "ustr list \<Rightarrow> rx" where
  "any_of toks = alts (map lit_str toks)"

definition looks_like_header :: "ustr \<Rightarrow> bool" where
  "looks_like_header line \<longleftrightarrow> rx_found True (any_of header_tokens) line"

text \<open>The lines \<open>start .. min(len(lines), start + max_lines) - 1\<close> up to the first one
  that looks like a header, joined and stripped.\<close>

definition block_of :: "nat \<Rightarrow> ustr list \<Rightarrow> ustr" where
  "block_of max_lines ls =
     py_strip (join [10] (takeWhile (\<lambda>l. \<not> looks_like_header l) (take max_lines ls)))"

fun section_after_header :: "rx \<Rightarrow> nat \<Rightarrow> ustr list \<Rightarrow> ustr option" where
  "section_after_header hr n [] = None"
| "section_after_header hr n (l # ls) =
     (if rx_found True hr l then Some (block_of n ls) else section_after_header hr n ls)"

definition miejsce_rx :: rx where
  "miejsce_rx = seq [WordB, lit_str (asc ''Miejsce''), WordB]"

fun section_after_split_header :: "rx \<Rightarrow> nat \<Rightarrow> ustr list \<Rightarrow> ustr option" where
  "section_after_split_header tr n (l # l' # ls) =
     (if rx_found True miejsce_rx l \<and> rx_found True tr l' then Some (block_of n ls)
      else section_after_split_header tr n (l' # ls))"
| "section_after_split_header tr n ls = None"

definition extract_section :: "ustr \<Rightarrow> ustr list \<Rightarrow> nat option \<Rightarrow> ustr list \<Rightarrow> ustr" where
  "extract_section text header_keywords max_lines two_line_tail =
     (if text = [] then []
      else let n = (case max_lines of None \<Rightarrow> CITY_SECTION_MAX_LINES
                    | Some k \<Rightarrow> if k = 0 then CITY_SECTION_MAX_LINES else k);
               lines = splitlines text
           in case section_after_header (any_of header_keywords) n lines of
                Some b \<Rightarrow> b
              | None \<Rightarrow>
                  if two_line_tail \<noteq> [] then
                    (case section_after_split_header (any_of two_line_tail) n lines of
                       Some b \<Rightarrow> b | None \<Rightarrow> [])
                  else [])"

definition loading_block :: "ustr \<Rightarrow> ustr" where
  "loading_block text =
     extract_section text
       [asc ''Miejsce za'' @ [322] @ asc ''adunku'', asc ''Miejsce zaladunku''] None
       [asc ''za'' @ [322] @ asc ''adunku'', asc ''zaladunku'']"

definition unloading_block :: "ustr \<Rightarrow> ustr" where
  "unloading_block text =
     extract_section text
       [asc ''Miejsce roz'' @ [322] @ asc ''adunku'', asc ''Miejsce rozladunku''] None
       [asc ''roz'' @ [322] @ asc ''adunku'', asc ''rozladunku'']"

section \<open>The tagger, the model registry and the Entity Scorer\<close>

text \<open>
  spaCy is outside the repository. A loaded pipeline is the function from a text to the
  entities it tags there, \<open>None\<close> when the call raises. The module-level name
  \<open>spacy\<close> is either absent or gives \<open>spacy.load\<close>, which yields a pipeline or raises
  (\<open>None\<close>). The extractor object is a record; \<open>load_log\<close> is a ghost field that lists
  the model names handed to \<open>spacy.load\<close> so far. Scores are rational numbers in place
  of binary floating point.
\<close>

record entity =
  ent_label :: ustr
  ent_text :: ustr

type_synonym pipeline = "ustr \<Rightarrow> entity list option"

record environment =
  spacy_present :: bool
  spacy_load :: "string \<Rightarrow> pipeline option"

record extractor =
  use_spacy :: bool
  lang_models :: "string list"
  nlp_pipelines :: "pipeline list option"
  load_log :: "string list"

definition USE_SPACY_CITIES :: bool where
  "USE_SPACY_CITIES = True"

definition SPACY_CITY_MODELS :: "string list" where
  "SPACY_CITY_MODELS = [''pl_core_news_sm'', ''de_core_news_sm'']"

definition init_extractor :: "bool \<Rightarrow> string list option \<Rightarrow> extractor" where
  "init_extractor use models =
     \<lparr> use_spacy = (use \<and> USE_SPACY_CITIES),
       lang_models = (case models of None \<Rightarrow> SPACY_CITY_MODELS
                      | Some ms \<Rightarrow> if ms = [] then SPACY_CITY_MODELS else ms),
       nlp_pipelines = None,
       load_log = [] \<rparr>"

fun load_models :: "(string \<Rightarrow> pipeline option) \<Rightarrow> string list \<Rightarrow> pipeline list" where
  "load_models ld [] = []"
| "load_models ld (m # ms) =
     (case ld m of Some p \<Rightarrow> p # load_models ld ms | None \<Rightarrow> load_models ld ms)"

definition ensure_models :: "environment \<Rightarrow> extractor \<Rightarrow> pipeline list \<times> extractor" where
  "ensure_models env ex =
     (if \<not> use_spacy ex \<or> \<not> spacy_present env then ([], ex)
      else case nlp_pipelines ex of
             Some ps \<Rightarrow> (ps, ex)
           | None \<Rightarrow>
               let ps = load_models (spacy_load env) (lang_models ex)
               in (ps, ex\<lparr>nlp_pipelines := Some ps, load_log := load_log ex @ lang_models ex\<rparr>))"

definition score_ner_candidate :: "entity \<Rightarrow> rat" where
  "score_ner_candidate ent =
     (let label = py_upper (ent_label ent);
          text_val = py_strip (ent_text ent)
      in if list_ex is_digit text_val then 0
         else if looks_like_street text_val then 0
         else let base = (if label \<in> set [asc ''GPE'', asc ''LOC'', asc ''PLACE''] then 1
                          else if label = asc ''ORG'' then 2 / 10 else 1 / 10);
                  base = (if 47 \<in> set text_val then base + 2 / 10 else base)
              in base + min (of_nat (length text_val) / 40) (3 / 10))"

text \<open>The loop over the pipelines of \<open>_ner_city\<close> and \<open>_extract_cities_list\<close>: the
  entities with a positive score, each with its cleaned text.\<close>

fun ner_scored :: "pipeline list \<Rightarrow> ustr \<Rightarrow> (rat \<times> ustr) list" where
  "ner_scored [] section = []"
| "ner_scored (nlp # ps) section =
     (case nlp section of
        None \<Rightarrow> ner_scored ps section
      | Some ents \<Rightarrow>
          map (\<lambda>e. (score_ner_candidate e, clean_city (ent_text e)))
              (filter (\<lambda>e. \<not> score_ner_candidate e \<le> 0) ents) @ ner_scored ps section)"

text \<open>\<open>scored.sort(key=lambda x: (x[0], len(x[1])), reverse=True)\<close>: a stable sort,
  larger keys first.\<close>

definition key_ge :: "rat \<times> ustr \<Rightarrow> rat \<times> ustr \<Rightarrow> bool" where
  "key_ge a b \<longleftrightarrow> fst a > fst b \<or> (fst a = fst b \<and> length (snd a) \<ge> length (snd b))"

fun insert_desc :: "rat \<times> ustr \<Rightarrow> (rat \<times> ustr) list \<Rightarrow> (rat \<times> ustr) list" where
  "insert_desc x [] = [x]"
| "insert_desc x (y # ys) = (if key_ge y x then y # insert_desc x ys else x # y # ys)"

definition sort_desc :: "(rat \<times> ustr) list \<Rightarrow> (rat \<times> ustr) list" where
  "sort_desc xs = foldl (\<lambda>acc x. insert_desc x acc) [] xs"

definition ner_best :: "pipeline list \<Rightarrow> ustr \<Rightarrow> ustr option" where
  "ner_best nlp_pipes section =
     (case sort_desc (ner_scored nlp_pipes section) of [] \<Rightarrow> None | x # _ \<Rightarrow> Some (snd x))"

text \<open>Truth value of an optional string: \<open>None\<close> and the empty string are false.\<close>

definition truthy :: "ustr option \<Rightarrow> bool" where
  "truthy v \<longleftrightarrow> (case v of None \<Rightarrow> False | Some c \<Rightarrow> c \<noteq> [])"

definition ner_city :: "environment \<Rightarrow> extractor \<Rightarrow> ustr \<Rightarrow> ustr option \<times> extractor" where
  "ner_city env ex section =
     (if section = [] \<or> \<not> use_spacy ex then (None, ex)
      else case ensure_models env ex of (nlp_pipes, ex') \<Rightarrow>
        if nlp_pipes = [] then (None, ex')
        else let zip_city = regex_city section
             in if truthy zip_city then (zip_city, ex')
                else (ner_best nlp_pipes section, ex'))"

text \<open>\<open>primary or secondary\<close>.\<close>

definition choose_best :: "ustr option \<Rightarrow> ustr option \<Rightarrow> ustr option" where
  "choose_best primary secondary = (if truthy primary then primary else secondary)"

section \<open>The Pattern Cascade, multi-city mode: \<open>_extract_cities_list\<close>\<close>

text \<open>\<open>found\<close> and \<open>seen\<close> are updated together; the set \<open>seen\<close> is kept as a list.\<close>

definition add_city :: "ustr \<Rightarrow> ustr list \<times> ustr list \<Rightarrow> ustr list \<times> ustr list" where
  "add_city city fs =
     (case fs of (found, seen) \<Rightarrow>
        if city \<noteq> [] \<and> city \<notin> set seen then (found @ [city], city # seen) else (found, seen))"

fun cities_zip_pass :: "ustr list \<Rightarrow> ustr list \<times> ustr list \<Rightarrow> ustr list \<times> ustr list" where
  "cities_zip_pass [] fs = fs"
| "cities_zip_pass (l # ls) fs =
     (let s = py_strip l in
      if s = [] then cities_zip_pass ls fs
      else case first_match zip_patterns s of
             Some g \<Rightarrow> cities_zip_pass ls (add_city (clean_city g) fs)
           | None \<Rightarrow> cities_zip_pass ls fs)"

fun cities_token_pass :: "ustr list \<Rightarrow> ustr list \<times> ustr list \<Rightarrow> ustr list \<times> ustr list" where
  "cities_token_pass [] fs = fs"
| "cities_token_pass (l # ls) fs =
     (let s = py_strip l in
      if s = [] \<or> looks_like_street s then cities_token_pass ls fs
      else case search_group (fst pattern_city_only) (snd pattern_city_only) s of
             Some g \<Rightarrow> cities_token_pass ls (add_city (clean_city g) fs)
           | None \<Rightarrow> cities_token_pass ls fs)"

fun cities_ner_pass :: "(rat \<times> ustr) list \<Rightarrow> ustr list \<times> ustr list \<Rightarrow> ustr list \<times> ustr list" where
  "cities_ner_pass [] fs = fs"
| "cities_ner_pass ((score, city) # xs) fs =
     (if score \<le> 0 then cities_ner_pass xs fs else cities_ner_pass xs (add_city city fs))"

definition extract_cities_list :: "environment \<Rightarrow> extractor \<Rightarrow> ustr \<Rightarrow> ustr list \<times> extractor" where
  "extract_cities_list env ex section =
     (let lines = splitlines section;
          fs1 = cities_zip_pass lines ([], [])
      in if fst fs1 \<noteq> [] then (fst fs1, ex)
         else let fs2 = cities_token_pass lines fs1
              in if fst fs2 \<noteq> [] then (fst fs2, ex)
                 else case ensure_models env ex of (nlp_pipes, ex') \<Rightarrow>
                   if nlp_pipes = [] then ([], ex')
                   else (fst (cities_ner_pass (ner_scored nlp_pipes section) ([], snd fs2)), ex'))"

section \<open>Whole-document candidates\<close>

text \<open>The loop "deduplicate preserving order": empty strings are dropped and the first
  occurrence of every other string is kept.\<close>

fun dedup_from :: "ustr list \<Rightarrow> ustr list \<Rightarrow> ustr list" where
  "dedup_from seen [] = []"
| "dedup_from seen (c # cs) =
     (if c \<noteq> [] \<and> c \<notin> set seen then c # dedup_from (c # seen) cs else dedup_from seen cs)"

fun global_candidates :: "ustr list \<Rightarrow> ustr list" where
  "global_candidates [] = []"
| "global_candidates (l # ls) =
     (let line = py_strip l in
      if line = [] then global_candidates ls
      else case first_match zip_patterns line of
             Some g \<Rightarrow> clean_city g # global_candidates ls
           | None \<Rightarrow>
               (case search_group (fst pattern_city_only) (snd pattern_city_only) line of
                  Some g \<Rightarrow> clean_city g # global_candidates ls
                | None \<Rightarrow> global_candidates ls))"

definition find_global_city_candidates :: "ustr \<Rightarrow> ustr list" where
  "find_global_city_candidates text =
     (if text = [] then [] else dedup_from [] (global_candidates (splitlines text)))"

fun global_ner_found :: "pipeline list \<Rightarrow> ustr \<Rightarrow> ustr list" where
  "global_ner_found [] text = []"
| "global_ner_found (nlp # ps) text =
     (case nlp text of
        None \<Rightarrow> global_ner_found ps text
      | Some ents \<Rightarrow>
          map (\<lambda>e. clean_city (py_strip (ent_text e)))
              (filter (\<lambda>e. py_upper (ent_label e) \<in> set [asc ''LOC'', asc ''GPE'', asc ''PLACE'']
                            \<and> \<not> list_ex is_digit (py_strip (ent_text e))) ents)
          @ global_ner_found ps text)"

definition find_global_ner_candidates ::
    "environment \<Rightarrow> extractor \<Rightarrow> ustr \<Rightarrow> ustr list \<times> extractor" where
  "find_global_ner_candidates env ex text =
     (case ensure_models env ex of (nlp_pipes, ex') \<Rightarrow>
        if nlp_pipes = [] then ([], ex')
        else (dedup_from [] (global_ner_found nlp_pipes text), ex'))"

section \<open>The Resolver\<close>

text \<open>The fallback shared by the three modes: the first candidate for a missing loading
  city, the last one for a missing unloading city.\<close>

definition fill_missing :: "ustr list \<Rightarrow> ustr option \<times> ustr option \<Rightarrow> ustr option \<times> ustr option" where
  "fill_missing candidates lu =
     (case lu of (loading_city, unloading_city) \<Rightarrow>
        (if loading_city = None \<and> candidates \<noteq> [] then Some (hd candidates) else loading_city,
         if unloading_city = None \<and> candidates \<noteq> [] then Some (last candidates) else unloading_city))"

text \<open>Steps 2 and 3 of \<open>extract_from_text\<close>: the loading city and the unloading
  city found in their sections.\<close>

definition section_cities ::
    "environment \<Rightarrow> extractor \<Rightarrow> ustr \<Rightarrow> (ustr option \<times> ustr option) \<times> extractor" where
  "section_cities env ex text =
     (let lb = loading_block text;
          ub = unloading_block text
      in case (if lb \<noteq> [] then (case ner_city env ex lb of (n, ex') \<Rightarrow> (choose_best (regex_city lb) n, ex'))
               else (None, ex)) of (loading_city, ex1) \<Rightarrow>
         case (if ub \<noteq> []
               then (case extract_cities_list env ex1 ub of (unloading_list, ex') \<Rightarrow>
                       if unloading_list \<noteq> [] then (Some (join [45] unloading_list), ex')
                       else (case ner_city env ex' ub of (n, ex'') \<Rightarrow>
                               (choose_best (regex_city ub) n, ex'')))
               else (None, ex1)) of (unloading_city, ex2) \<Rightarrow>
         ((loading_city, unloading_city), ex2))"

definition extract_from_text ::
    "environment \<Rightarrow> extractor \<Rightarrow> ustr \<Rightarrow> (ustr option \<times> ustr option) \<times> extractor" where
  "extract_from_text env ex text =
     (case section_cities env ex text of ((loading_city, unloading_city), ex2) \<Rightarrow>
        (if loading_city = None \<or> unloading_city = None
         then fill_missing (find_global_city_candidates text) (loading_city, unloading_city)
         else (loading_city, unloading_city), ex2))"

definition extract_regex_only :: "ustr \<Rightarrow> ustr option \<times> ustr option" where
  "extract_regex_only text =
     (let lb = loading_block text;
          ub = unloading_block text;
          loading_city = (if lb \<noteq> [] then regex_city lb else None);
          unloading_city = (if ub \<noteq> [] then regex_city ub else None)
      in if loading_city = None \<or> unloading_city = None
         then fill_missing (find_global_city_candidates text) (loading_city, unloading_city)
         else (loading_city, unloading_city))"

definition extract_ner_only ::
    "environment \<Rightarrow> extractor \<Rightarrow> ustr \<Rightarrow> (ustr option \<times> ustr option) \<times> extractor" where
  "extract_ner_only env ex text =
     (let lb = loading_block text;
          ub = unloading_block text
      in case (if lb \<noteq> [] then ner_city env ex lb else (None, ex)) of (loading_city, ex1) \<Rightarrow>
         case (if ub \<noteq> [] then ner_city env ex1 ub else (None, ex1)) of (unloading_city, ex2) \<Rightarrow>
         if loading_city = None \<or> unloading_city = None
         then (case find_global_ner_candidates env ex2 text of (cands, ex3) \<Rightarrow>
                 (fill_missing cands (loading_city, unloading_city), ex3))
         else ((loading_city, unloading_city), ex2))"

record comparison =
  cmp_regex :: "ustr option \<times> ustr option"
  cmp_spacy :: "ustr option \<times> ustr option"
  cmp_hybrid :: "ustr option \<times> ustr option"

definition compare_methods :: "environment \<Rightarrow> extractor \<Rightarrow> ustr \<Rightarrow> comparison \<times> extractor" where
  "compare_methods env ex text =
     (let r = extract_regex_only text
      in case extract_ner_only env ex text of (n, ex1) \<Rightarrow>
         case extract_from_text env ex1 text of (h, ex2) \<Rightarrow>
         (\<lparr> cmp_regex = r, cmp_spacy = n, cmp_hybrid = h \<rparr>, ex2))"

section \<open>Sample documents and taggers\<close>

text \<open>A tagger that labels \<open>berlin\<close> as a place in whatever it reads, an installation
  where every model loads to it, one where spaCy is present and no model loads, and one
  without spaCy.\<close>

definition berlin_tagger :: pipeline where
  "berlin_tagger t = Some [\<lparr>ent_label = asc ''GPE'', ent_text = asc ''berlin''\<rparr>]"

definition env_loaded :: environment where
  "env_loaded = \<lparr>spacy_present = True, spacy_load = (\<lambda>m. Some berlin_tagger)\<rparr>"

definition env_no_models :: environment where
  "env_no_models = \<lparr>spacy_present = True, spacy_load = (\<lambda>m. None)\<rparr>"

definition env_no_spacy :: environment where
  "env_no_spacy = \<lparr>spacy_present = False, spacy_load = (\<lambda>m. None)\<rparr>"

definition fresh :: extractor where
  "fresh = init_extractor True None"

text \<open>The two city names of the multi-stop example, with S acute (346) and o acute (243).\<close>

definition swidnica :: ustr where
  "swidnica = [346] @ asc ''widnica''"

definition zielona_gora :: ustr where
  "zielona_gora = asc ''Zielona G'' @ [243] @ asc ''ra''"

definition doc_two_stops :: ustr where
  "doc_two_stops =
     asc ''Miejsce rozladunku'' @ [10] @ asc ''66-008  '' @ swidnica @ [10] @
     asc ''65-001  '' @ zielona_gora"

definition doc_no_headers :: ustr where
  "doc_no_headers =
     asc ''66-008  '' @ swidnica @ [10] @ asc ''tel 123'' @ [10] @ asc ''65-001  '' @ zielona_gora"

definition doc_empty_city :: ustr where
  "doc_empty_city = asc ''Miejsce zaladunku'' @ [10] @ asc ''PL62-090 na zlec X''"

section \<open>Properties\<close>

text \<open>
  C10. There are inputs on which the Normalizer returns the empty string, and
  \<open>extract_regex_only\<close> then reports the empty string, not an absent value, as the
  resolved city: the captured text \<open>na zlecenie X\<close> is cleaned to the empty string, the
  cascade on the section \<open>PL62-090 na zlecenie X\<close> returns it, and for the document
  with the header \<open>Miejsce zaladunku\<close> followed by \<open>PL62-090 na zlec X\<close> the loading
  city of pattern-only mode is the empty string.
\<close>

theorem regex_only_returns_empty_city:
  "clean_city (asc ''na zlecenie X'') = [] \<and>
   regex_city (asc ''PL62-090 na zlecenie X'') = Some [] \<and>
   loading_block doc_empty_city = asc ''PL62-090 na zlec X'' \<and>
   fst (extract_regex_only doc_empty_city) = Some []"
  by code_simp

text \<open>
  C7. A line with more digits than a third of its length (and more than three) on which
  no zip pattern matches is meant to be ignored. The line \<open>Abc 1234567\<close> has seven digits
  among eleven characters and no zip pattern matches it, and yet the cascade returns
  \<open>Abc\<close> from it: the test on the digits has no effect, and the second loop has no such
  test.
\<close>

theorem regex_city_uses_numeric_line:
  "first_match zip_patterns (asc ''Abc 1234567'') = None \<and>
   count_digits (asc ''Abc 1234567'') > max 3 (length (asc ''Abc 1234567'') div 3) \<and>
   3 * count_digits (asc ''Abc 1234567'') > length (asc ''Abc 1234567'') \<and>
   regex_city (asc ''Abc 1234567'') = Some (asc ''Abc'')"
  by code_simp

end
